theory Spec2Isabelle
  imports Complex_Main
begin

section \<open>Python values\<close>

text \<open>
  The queueing formulas of \<^verbatim>\<open>calc.py\<close>, \<^verbatim>\<open>contour.py\<close> and \<^verbatim>\<open>plot.py\<close> work on Python
  floats and ints. A float is modelled as an exact real number or one of the three special
  values; arithmetic on finite values is exact (no rounding, and no finite range, so the
  model never raises \<^verbatim>\<open>OverflowError\<close> by itself), the special values follow IEEE 754 as
  Python exposes it, and the exceptions Python raises are values of type \<open>error\<close>.
  Signed zeros are not distinguished.
\<close>

datatype pyfloat = Fin real | PInf | NInf | NaN

datatype error = ZeroDivisionError | ValueError | OverflowError

definition ebind :: "error + 'a \<Rightarrow> ('a \<Rightarrow> error + 'b) \<Rightarrow> error + 'b" where
  "ebind m f = (case m of Inl e \<Rightarrow> Inl e | Inr x \<Rightarrow> f x)"

text \<open>An int operand of a float operation is converted to float.\<close>

definition int_to_float :: "int \<Rightarrow> pyfloat" where
  "int_to_float n = Fin (of_int n)"

fun fneg :: "pyfloat \<Rightarrow> pyfloat" where
  "fneg (Fin a) = Fin (- a)"
| "fneg PInf = NInf"
| "fneg NInf = PInf"
| "fneg NaN = NaN"

fun fadd :: "pyfloat \<Rightarrow> pyfloat \<Rightarrow> pyfloat" where
  "fadd (Fin a) (Fin b) = Fin (a + b)"
| "fadd (Fin a) PInf = PInf"
| "fadd (Fin a) NInf = NInf"
| "fadd PInf (Fin b) = PInf"
| "fadd PInf PInf = PInf"
| "fadd PInf NInf = NaN"
| "fadd NInf (Fin b) = NInf"
| "fadd NInf PInf = NaN"
| "fadd NInf NInf = NInf"
| "fadd NaN y = NaN"
| "fadd x NaN = NaN"

definition fsub :: "pyfloat \<Rightarrow> pyfloat \<Rightarrow> pyfloat" where
  "fsub x y = fadd x (fneg y)"

text \<open>The infinity of the sign of \<open>s\<close>, and not-a-number for \<open>s = 0\<close> (infinity times zero).\<close>

definition inf_signed :: "real \<Rightarrow> pyfloat" where
  "inf_signed s = (if s = 0 then NaN else if 0 < s then PInf else NInf)"

fun fmul :: "pyfloat \<Rightarrow> pyfloat \<Rightarrow> pyfloat" where
  "fmul (Fin a) (Fin b) = Fin (a * b)"
| "fmul (Fin a) PInf = inf_signed a"
| "fmul (Fin a) NInf = inf_signed (- a)"
| "fmul PInf (Fin b) = inf_signed b"
| "fmul PInf PInf = PInf"
| "fmul PInf NInf = NInf"
| "fmul NInf (Fin b) = inf_signed (- b)"
| "fmul NInf PInf = NInf"
| "fmul NInf NInf = PInf"
| "fmul NaN y = NaN"
| "fmul x NaN = NaN"

text \<open>
  Float true division: a zero divisor raises \<^verbatim>\<open>ZeroDivisionError\<close> whatever the dividend is.
\<close>

fun fdiv :: "pyfloat \<Rightarrow> pyfloat \<Rightarrow> error + pyfloat" where
  "fdiv (Fin a) (Fin b) = (if b = 0 then Inl ZeroDivisionError else Inr (Fin (a / b)))"
| "fdiv PInf (Fin b) = (if b = 0 then Inl ZeroDivisionError else Inr (inf_signed b))"
| "fdiv NInf (Fin b) = (if b = 0 then Inl ZeroDivisionError else Inr (inf_signed (- b)))"
| "fdiv NaN (Fin b) = (if b = 0 then Inl ZeroDivisionError else Inr NaN)"
| "fdiv (Fin a) PInf = Inr (Fin 0)"
| "fdiv (Fin a) NInf = Inr (Fin 0)"
| "fdiv PInf PInf = Inr NaN"
| "fdiv PInf NInf = Inr NaN"
| "fdiv NInf PInf = Inr NaN"
| "fdiv NInf NInf = Inr NaN"
| "fdiv NaN PInf = Inr NaN"
| "fdiv NaN NInf = Inr NaN"
| "fdiv x NaN = Inr NaN"

text \<open>
  \<^verbatim>\<open>x ** n\<close> for a float \<open>x\<close> and an int \<open>n\<close>: anything to the power 0 is 1.0, and zero to a
  negative power raises \<^verbatim>\<open>ZeroDivisionError\<close>.
\<close>

definition fpow :: "pyfloat \<Rightarrow> int \<Rightarrow> error + pyfloat" where
  "fpow x n =
     (if n = 0 then Inr (Fin 1)
      else case x of
        NaN \<Rightarrow> Inr NaN
      | PInf \<Rightarrow> Inr (if 0 < n then PInf else Fin 0)
      | NInf \<Rightarrow> Inr (if 0 < n then (if odd n then NInf else PInf) else Fin 0)
      | Fin a \<Rightarrow> if a = 0 \<and> n < 0 then Inl ZeroDivisionError else Inr (Fin (power_int a n)))"

text \<open>Comparisons: every comparison with not-a-number is false.\<close>

fun fge :: "pyfloat \<Rightarrow> pyfloat \<Rightarrow> bool" where
  "fge (Fin a) (Fin b) = (b \<le> a)"
| "fge (Fin a) PInf = False"
| "fge (Fin a) NInf = True"
| "fge PInf (Fin b) = True"
| "fge PInf PInf = True"
| "fge PInf NInf = True"
| "fge NInf (Fin b) = False"
| "fge NInf PInf = False"
| "fge NInf NInf = True"
| "fge NaN y = False"
| "fge x NaN = False"

definition fle :: "pyfloat \<Rightarrow> pyfloat \<Rightarrow> bool" where
  "fle x y = fge y x"

fun feq :: "pyfloat \<Rightarrow> pyfloat \<Rightarrow> bool" where
  "feq (Fin a) (Fin b) = (a = b)"
| "feq PInf PInf = True"
| "feq NInf NInf = True"
| "feq x y = False"

text \<open>\<^verbatim>\<open>math.factorial\<close> raises \<^verbatim>\<open>ValueError\<close> on a negative argument.\<close>

definition math_factorial :: "int \<Rightarrow> error + int" where
  "math_factorial n = (if n < 0 then Inl ValueError else Inr (fact (nat n)))"

section \<open>calc.py\<close>

text \<open>
  The loop of \<^verbatim>\<open>calculate_lq\<close> over \<^verbatim>\<open>range(c)\<close>:
  \<^verbatim>\<open>sum_terms += ((c * rho)**n) / math.factorial(n)\<close>.
\<close>

fun lq_sum_loop :: "int \<Rightarrow> pyfloat \<Rightarrow> nat list \<Rightarrow> pyfloat \<Rightarrow> error + pyfloat" where
  "lq_sum_loop c rho [] sum_terms = Inr sum_terms"
| "lq_sum_loop c rho (n # ns) sum_terms =
     ebind (fpow (fmul (int_to_float c) rho) (int n)) (\<lambda>p.
     ebind (math_factorial (int n)) (\<lambda>f.
     ebind (fdiv p (int_to_float f)) (\<lambda>t.
     lq_sum_loop c rho ns (fadd sum_terms t))))"

definition calculate_lq :: "pyfloat \<Rightarrow> int \<Rightarrow> error + pyfloat" where
  "calculate_lq rho c =
     (if fge rho (Fin 1) then Inr PInf
      else
        ebind (lq_sum_loop c rho [0..<nat c] (Fin 0)) (\<lambda>sum_terms.
        ebind (fpow (fmul (int_to_float c) rho) c) (\<lambda>p.
        ebind (math_factorial c) (\<lambda>f.
        ebind (fdiv p (fmul (int_to_float f) (fsub (Fin 1) rho))) (\<lambda>pc_numerator.
        ebind (fdiv pc_numerator (fadd sum_terms pc_numerator)) (\<lambda>pc.
        fdiv (fmul pc rho) (fsub (Fin 1) rho)))))))"

definition calculate_wq :: "pyfloat \<Rightarrow> pyfloat \<Rightarrow> error + pyfloat" where
  "calculate_wq lq mu = fdiv lq mu"



definition calculate_rho :: "pyfloat \<Rightarrow> pyfloat \<Rightarrow> int \<Rightarrow> error + pyfloat" where
  "calculate_rho lambda_val mu c = fdiv lambda_val (fmul (int_to_float c) mu)"



section \<open>contour.py and plot.py\<close>

text \<open>
  Both sweep functions run part of their body under
  \<^verbatim>\<open>except (ValueError, OverflowError): return np.nan\<close>; any other exception propagates.
\<close>

definition try_nan :: "error + 'a \<Rightarrow> ('a \<Rightarrow> error + pyfloat) \<Rightarrow> error + pyfloat" where
  "try_nan body rest =
     (case body of
        Inl ValueError \<Rightarrow> Inr NaN
      | Inl OverflowError \<Rightarrow> Inr NaN
      | Inl ZeroDivisionError \<Rightarrow> Inl ZeroDivisionError
      | Inr x \<Rightarrow> rest x)"

text \<open>
  \<^verbatim>\<open>sum((r**n) / math.factorial(n) for n in range(servers))\<close>, which starts from the int 0.
\<close>

fun p0_sum :: "pyfloat \<Rightarrow> nat list \<Rightarrow> pyfloat \<Rightarrow> error + pyfloat" where
  "p0_sum r [] acc = Inr acc"
| "p0_sum r (n # ns) acc =
     ebind (fpow r (int n)) (\<lambda>p.
     ebind (math_factorial (int n)) (\<lambda>f.
     ebind (fdiv p (int_to_float f)) (\<lambda>t.
     p0_sum r ns (fadd acc t))))"

text \<open>
  The body of the \<^verbatim>\<open>try\<close> of \<^verbatim>\<open>calculate_average_queue_time\<close>; it binds \<open>r\<close> and \<open>p0\<close>,
  which the code after it reads.
\<close>

definition p0_try :: "pyfloat \<Rightarrow> pyfloat \<Rightarrow> int \<Rightarrow> pyfloat \<Rightarrow> error + (pyfloat \<times> pyfloat)" where
  "p0_try arrival_rate service_rate servers rho =
     ebind (fdiv arrival_rate service_rate) (\<lambda>r.
     ebind (p0_sum r [0..<nat servers] (int_to_float 0)) (\<lambda>sum_term.
     ebind (fpow r servers) (\<lambda>p.
     ebind (math_factorial servers) (\<lambda>f.
     ebind (fdiv p (int_to_float f)) (\<lambda>q.
     ebind (fdiv (Fin 1) (fsub (Fin 1) rho)) (\<lambda>s.
     ebind (fdiv (Fin 1) (fadd sum_term (fmul q s))) (\<lambda>p0.
     Inr (r, p0))))))))"

text \<open>
  \<^verbatim>\<open>lq = ((r**servers * rho) / (math.factorial(servers) * (1 - rho)**2)) * p0\<close>,
  evaluated after the \<^verbatim>\<open>try\<close>.
\<close>

definition lq_direct :: "pyfloat \<Rightarrow> pyfloat \<Rightarrow> int \<Rightarrow> pyfloat \<Rightarrow> error + pyfloat" where
  "lq_direct r rho servers p0 =
     ebind (fpow r servers) (\<lambda>p.
     ebind (math_factorial servers) (\<lambda>f.
     ebind (fpow (fsub (Fin 1) rho) 2) (\<lambda>d.
     ebind (fdiv (fmul p rho) (fmul (int_to_float f) d)) (\<lambda>q.
     Inr (fmul q p0)))))"

definition calculate_average_queue_time :: "pyfloat \<Rightarrow> pyfloat \<Rightarrow> int \<Rightarrow> error + pyfloat" where
  "calculate_average_queue_time arrival_rate service_rate servers =
     (if fge arrival_rate (fmul (int_to_float servers) service_rate) \<or> fle service_rate (Fin 0)
      then Inr NaN
      else
        ebind (calculate_rho arrival_rate service_rate servers) (\<lambda>rho.
        if fge rho (Fin 1) then Inr NaN
        else
          try_nan (p0_try arrival_rate service_rate servers rho) (\<lambda>(r, p0).
          ebind (lq_direct r rho servers p0) (\<lambda>lq.
          if feq arrival_rate (Fin 0) then Inr (Fin 0)
          else fdiv lq arrival_rate))))"

definition calculate_wq_for_plot :: "pyfloat \<Rightarrow> pyfloat \<Rightarrow> int \<Rightarrow> error + pyfloat" where
  "calculate_wq_for_plot arrival_rate service_rate servers =
     (if fge arrival_rate (fmul (int_to_float servers) service_rate) \<or> fle service_rate (Fin 0)
      then Inr NaN
      else
        ebind (calculate_rho arrival_rate service_rate servers) (\<lambda>rho.
        if fge rho (Fin 1) then Inr NaN
        else
          try_nan
            (ebind (calculate_lq rho servers) (\<lambda>lq. calculate_wq lq service_rate))
            (\<lambda>wq. if feq arrival_rate (Fin 0) then Inr (Fin 0) else Inr wq)))"

section \<open>The formulas of the queueing model\<close>

text \<open>
  The quantities the specification names, over the reals: the partial sum \<open>S\<close>, the last
  term \<open>T\<close>, the Erlang-C waiting probability \<open>Pc = T / (S + T)\<close> and the mean queue
  length \<open>Lq = Pc \<cdot> \<rho> / (1 - \<rho>)\<close>, with offered traffic \<open>a = c \<cdot> \<rho>\<close>.
\<close>

definition erlang_S :: "real \<Rightarrow> nat \<Rightarrow> real" where
  "erlang_S a c = (\<Sum>n<c. a ^ n / fact n)"

definition erlang_T :: "real \<Rightarrow> nat \<Rightarrow> real" where
  "erlang_T rho c = (real c * rho) ^ c / (fact c * (1 - rho))"

definition erlang_Pc :: "real \<Rightarrow> nat \<Rightarrow> real" where
  "erlang_Pc rho c = erlang_T rho c / (erlang_S (real c * rho) c + erlang_T rho c)"

definition erlang_Lq :: "real \<Rightarrow> nat \<Rightarrow> real" where
  "erlang_Lq rho c = erlang_Pc rho c * rho / (1 - rho)"


section \<open>Evaluation on finite values\<close>

lemma ebind_Inr [simp]: "ebind (Inr x) f = f x"
  by (simp add: ebind_def)

lemma ebind_Inl [simp]: "ebind (Inl e) f = Inl e"
  by (simp add: ebind_def)

lemma fpow_Fin_nat [simp]: "fpow (Fin a) (int n) = Inr (Fin (a ^ n))"
  by (simp add: fpow_def)

lemma math_factorial_nat [simp]: "math_factorial (int n) = Inr (fact n)"
  by (simp add: math_factorial_def)

lemma fdiv_fact [simp]: "fdiv (Fin x) (int_to_float (fact n)) = Inr (Fin (x / fact n))"
  by (simp add: int_to_float_def)

lemma lq_sum_loop_Fin:
  "lq_sum_loop c (Fin rho) ns (Fin acc) =
     Inr (Fin (acc + (\<Sum>n\<leftarrow>ns. (of_int c * rho) ^ n / fact n)))"
  by (induction ns arbitrary: acc) (simp_all add: int_to_float_def add.assoc)

lemma p0_sum_Fin:
  "p0_sum (Fin r) ns (Fin acc) = Inr (Fin (acc + (\<Sum>n\<leftarrow>ns. r ^ n / fact n)))"
  by (induction ns arbitrary: acc) (simp_all add: add.assoc)

lemma sum_list_erlang_S: "(\<Sum>n\<leftarrow>[0..<c]. a ^ n / fact n) = erlang_S a c"
  by (simp add: erlang_S_def interv_sum_list_conv_sum_set_nat atLeast0LessThan)

lemma erlang_S_pos:
  assumes a: "0 \<le> a" and c: "0 < c"
  shows "1 \<le> erlang_S a c"
proof -
  have "erlang_S a c = (\<Sum>n\<in>insert 0 {1..<c}. a ^ n / fact n)"
    unfolding erlang_S_def using c by (intro sum.cong) auto
  also have "\<dots> = 1 + (\<Sum>n\<in>{1..<c}. a ^ n / fact n)"
    by simp
  also have "\<dots> \<ge> 1"
    using a by (simp add: sum_nonneg)
  finally show ?thesis .
qed

lemma erlang_T_nonneg: "0 \<le> rho \<Longrightarrow> rho < 1 \<Longrightarrow> 0 \<le> erlang_T rho c"
  by (simp add: erlang_T_def)

lemma erlang_ST_pos:
  assumes "0 \<le> rho" "rho < 1" "0 < c"
  shows "0 < erlang_S (real c * rho) c + erlang_T rho c"
  using erlang_S_pos [of "real c * rho" c] erlang_T_nonneg [of rho c] assms by simp

lemma calculate_lq_Fin:
  assumes "rho < 1" "0 \<le> c"
    and "erlang_S (of_int c * rho) (nat c) + erlang_T rho (nat c) \<noteq> 0"
  shows "calculate_lq (Fin rho) c = Inr (Fin (erlang_Lq rho (nat c)))"
proof -
  have p: "fpow (Fin (of_int c * rho)) c = Inr (Fin ((of_int c * rho) ^ nat c))"
    using fpow_Fin_nat [of "of_int c * rho" "nat c"] assms(2) by simp
  have f: "math_factorial c = Inr (fact (nat c))"
    using math_factorial_nat [of "nat c"] assms(2) by simp
  have r: "real (nat c) = of_int c" using assms(2) by simp
  show ?thesis
    using assms
    by (simp add: calculate_lq_def lq_sum_loop_Fin sum_list_erlang_S p f int_to_float_def
        fsub_def erlang_Lq_def erlang_Pc_def erlang_T_def r)
qed

lemma calculate_lq_stable:
  assumes "0 \<le> rho" "rho < 1" "1 \<le> c"
  shows "calculate_lq (Fin rho) c = Inr (Fin (erlang_Lq rho (nat c)))"
proof -
  have "0 < erlang_S (real (nat c) * rho) (nat c) + erlang_T rho (nat c)"
    using assms by (intro erlang_ST_pos) auto
  moreover have "real (nat c) = of_int c" using assms by simp
  ultimately show ?thesis
    using calculate_lq_Fin [of rho c] assms by simp
qed

lemma fpow_Fin_nonneg: "0 \<le> c \<Longrightarrow> fpow (Fin a) c = Inr (Fin (a ^ nat c))"
  using fpow_Fin_nat [of a "nat c"] by simp

lemma math_factorial_nonneg: "0 \<le> c \<Longrightarrow> math_factorial c = Inr (fact (nat c))"
  using math_factorial_nat [of "nat c"] by simp

lemma p0_try_Fin:
  assumes "mu \<noteq> 0" "rho \<noteq> 1" "0 \<le> c"
    and "erlang_S (lam / mu) (nat c) + (lam / mu) ^ nat c / fact (nat c) * (1 / (1 - rho)) \<noteq> 0"
  shows "p0_try (Fin lam) (Fin mu) c (Fin rho) =
           Inr (Fin (lam / mu),
                Fin (1 / (erlang_S (lam / mu) (nat c)
                          + (lam / mu) ^ nat c / fact (nat c) * (1 / (1 - rho)))))"
  using assms
  by (simp add: p0_try_def int_to_float_def p0_sum_Fin sum_list_erlang_S fpow_Fin_nonneg
      math_factorial_nonneg fsub_def)

lemma lq_direct_Fin:
  assumes "rho \<noteq> 1" "0 \<le> c"
  shows "lq_direct (Fin r) (Fin rho) c (Fin p0) =
           Inr (Fin (r ^ nat c * rho / (fact (nat c) * (1 - rho)\<^sup>2) * p0))"
  using assms
  by (simp add: lq_direct_def fpow_Fin_nonneg math_factorial_nonneg fsub_def int_to_float_def
      fpow_Fin_nat [of "1 - rho" 2, simplified])

text \<open>The direct form of the queue length agrees with the form through \<open>Pc\<close>.\<close>

lemma direct_form_eq:
  assumes "rho < 1" and "erlang_S (real c * rho) c + erlang_T rho c \<noteq> 0"
  shows "(real c * rho) ^ c * rho / (fact c * (1 - rho)\<^sup>2)
           * (1 / (erlang_S (real c * rho) c + (real c * rho) ^ c / fact c * (1 / (1 - rho))))
         = erlang_Lq rho c"
proof -
  define S where "S = erlang_S (real c * rho) c"
  define A where "A = (real c * rho) ^ c / fact c"
  have T: "erlang_T rho c = A / (1 - rho)"
    by (simp add: erlang_T_def A_def)
  have nz: "S + A / (1 - rho) \<noteq> 0" using assms(2) by (simp add: S_def T)
  have "A * rho / (1 - rho)\<^sup>2 * (1 / (S + A * (1 / (1 - rho))))
        = A / (1 - rho) / (S + A / (1 - rho)) * rho / (1 - rho)"
    using assms(1) nz by (simp add: power2_eq_square)
  then show ?thesis
    by (simp add: erlang_Lq_def erlang_Pc_def T S_def [symmetric]) (simp add: A_def)
qed

lemma calculate_rho_Fin:
  "of_int c * mu \<noteq> 0 \<Longrightarrow> calculate_rho (Fin lam) (Fin mu) c = Inr (Fin (lam / (of_int c * mu)))"
  by (simp add: calculate_rho_def int_to_float_def)

text \<open>What the two sweep functions return on a stable input.\<close>

lemma stable_rho:
  assumes "0 \<le> lam" "0 < mu" "1 \<le> c" "lam < of_int c * mu"
  shows "0 \<le> lam / (of_int c * mu)" "lam / (of_int c * mu) < 1"
    "lam / mu = real (nat c) * (lam / (of_int c * mu))"
  using assms by (simp_all add: field_simps)

lemma calculate_average_queue_time_stable:
  assumes "0 \<le> lam" "0 < mu" "1 \<le> c" "lam < of_int c * mu"
  shows "calculate_average_queue_time (Fin lam) (Fin mu) c =
           Inr (Fin (if lam = 0 then 0 else erlang_Lq (lam / (of_int c * mu)) (nat c) / lam))"
proof -
  define rho where "rho = lam / (of_int c * mu)"
  define r where "r = lam / mu"
  define p0 where
    "p0 = 1 / (erlang_S r (nat c) + r ^ nat c / fact (nat c) * (1 / (1 - rho)))"
  have rho: "0 \<le> rho" "rho < 1" and r: "r = real (nat c) * rho"
    using stable_rho [OF assms] by (simp_all add: rho_def r_def)
  have c: "0 < nat c" "0 \<le> c" using assms by simp_all
  have pos: "0 < erlang_S (real (nat c) * rho) (nat c) + erlang_T rho (nat c)"
    using rho c by (intro erlang_ST_pos)
  have T: "(real (nat c) * rho) ^ nat c / fact (nat c) * (1 / (1 - rho)) = erlang_T rho (nat c)"
    by (simp add: erlang_T_def)
  have "p0_try (Fin lam) (Fin mu) c (Fin rho) =
           Inr (Fin (lam / mu),
                Fin (1 / (erlang_S (lam / mu) (nat c)
                          + (lam / mu) ^ nat c / fact (nat c) * (1 / (1 - rho)))))"
  proof (rule p0_try_Fin)
    show "erlang_S (lam / mu) (nat c) + (lam / mu) ^ nat c / fact (nat c) * (1 / (1 - rho)) \<noteq> 0"
      unfolding r_def [symmetric] unfolding r T using pos by simp
  qed (use assms rho c in simp_all)
  then have tr: "p0_try (Fin lam) (Fin mu) c (Fin rho) = Inr (Fin r, Fin p0)"
    by (simp only: r_def p0_def)
  have "r ^ nat c * rho / (fact (nat c) * (1 - rho)\<^sup>2) * p0 = erlang_Lq rho (nat c)"
    unfolding p0_def r using rho pos by (intro direct_form_eq) simp_all
  then have lq: "lq_direct (Fin r) (Fin rho) c (Fin p0) = Inr (Fin (erlang_Lq rho (nat c)))"
    using rho c by (simp add: lq_direct_Fin)
  have rho_eq: "calculate_rho (Fin lam) (Fin mu) c = Inr (Fin rho)"
    using assms by (simp add: calculate_rho_Fin rho_def)
  have guard: "\<not> fge (Fin lam) (fmul (int_to_float c) (Fin mu))" "\<not> fle (Fin mu) (Fin 0)"
    using assms by (simp_all add: int_to_float_def fle_def)
  have "calculate_average_queue_time (Fin lam) (Fin mu) c =
          (if feq (Fin lam) (Fin 0) then Inr (Fin 0)
           else fdiv (Fin (erlang_Lq rho (nat c))) (Fin lam))"
    using rho(2) by (simp add: calculate_average_queue_time_def guard rho_eq tr try_nan_def lq)
  then show ?thesis
    by (simp add: rho_def)
qed

lemma calculate_wq_for_plot_stable:
  assumes "0 \<le> lam" "0 < mu" "1 \<le> c" "lam < of_int c * mu"
  shows "calculate_wq_for_plot (Fin lam) (Fin mu) c =
           Inr (Fin (if lam = 0 then 0 else erlang_Lq (lam / (of_int c * mu)) (nat c) / mu))"
proof -
  define rho where "rho = lam / (of_int c * mu)"
  have rho: "0 \<le> rho" "rho < 1"
    using stable_rho [OF assms] by (simp_all add: rho_def)
  have g: "\<not> of_int c * mu \<le> lam" "\<not> mu \<le> 0" "of_int c * mu \<noteq> 0" "mu \<noteq> 0"
    using assms by auto
  show ?thesis
    using g rho calculate_lq_stable [OF rho assms(3)]
    by (simp add: calculate_wq_for_plot_def int_to_float_def fle_def calculate_rho_def
        rho_def [symmetric] try_nan_def calculate_wq_def)
qed




lemma erlang_Lq_half_one: "erlang_Lq (1/2) (Suc 0) = 1/2"
  by (simp add: erlang_Lq_def erlang_Pc_def erlang_T_def erlang_S_def)




text \<open>What the handler of the sweep functions does with each exception.\<close>

lemma try_nan_caught:
  "try_nan (Inl ValueError) k = Inr NaN"
  "try_nan (Inl OverflowError) k = Inr NaN"
  "try_nan (Inl ZeroDivisionError) k = Inl ZeroDivisionError"
  by (simp_all add: try_nan_def)


section \<open>Monotonicity of the queue length formula\<close>






section \<open>Mean queue length\<close>







section \<open>Derived metrics and inversion\<close>








section \<open>The sweep functions\<close>

text \<open>
  Claim C2. When \<open>\<rho> \<ge> 1\<close>, \<^verbatim>\<open>calculate_lq\<close> returns the infinite sentinel; when
  \<open>\<lambda> \<ge> c \<cdot> \<mu>\<close> or \<open>\<mu> \<le> 0\<close>, the sweep functions \<^verbatim>\<open>calculate_average_queue_time\<close> and
  \<^verbatim>\<open>calculate_wq_for_plot\<close> return the not-a-number sentinel. In each case the result is a
  returned value, not an exception, and not a finite number.
\<close>

theorem unstable_sentinel:
  "(1 \<le> rho \<longrightarrow> calculate_lq (Fin rho) c = Inr PInf) \<and>
   (of_int c * mu \<le> lam \<or> mu \<le> 0 \<longrightarrow>
      calculate_average_queue_time (Fin lam) (Fin mu) c = Inr NaN \<and>
      calculate_wq_for_plot (Fin lam) (Fin mu) c = Inr NaN)"
  by (auto simp add: calculate_lq_def calculate_average_queue_time_def
      calculate_wq_for_plot_def int_to_float_def fle_def)

theorem unstable_sentinel_witness:
  "(1::real) \<le> 1 \<and> calculate_lq (Fin 1) 6 = Inr PInf \<and>
   (of_int 6 * (20::real) \<le> 130 \<or> (20::real) \<le> 0) \<and>
   calculate_average_queue_time (Fin 130) (Fin 20) 6 = Inr NaN \<and>
   calculate_wq_for_plot (Fin 130) (Fin 20) 6 = Inr NaN"
  using unstable_sentinel [of 1 6 20 130] by simp





text \<open>
  Claim C3. On a stable input with \<open>\<lambda> > 0\<close> the sweep functions should return
  \<open>Wq = Lq / \<lambda>\<close> (Little's law). \<^verbatim>\<open>calculate_average_queue_time\<close> does
  (\<open>calculate_average_queue_time_stable\<close>); \<^verbatim>\<open>calculate_wq_for_plot\<close> divides by \<open>\<mu>\<close>
  instead (\<open>calculate_wq_for_plot_stable\<close>). At \<open>\<lambda> = 1\<close>, \<open>\<mu> = 2\<close>, \<open>c = 1\<close> the
  utilisation is 1/2 and \<open>Lq = 1/2\<close>, so Little's law gives \<open>Wq = 1/2\<close>, which the first
  function returns, while the second returns 1/4.
\<close>

theorem plot_wait_divides_by_mu:
  "calculate_rho (Fin 1) (Fin 2) 1 = Inr (Fin (1/2)) \<and>
   calculate_lq (Fin (1/2)) 1 = Inr (Fin (1/2)) \<and>
   calculate_average_queue_time (Fin 1) (Fin 2) 1 = Inr (Fin (1/2)) \<and>
   calculate_wq_for_plot (Fin 1) (Fin 2) 1 = Inr (Fin (1/4))"
  using calculate_average_queue_time_stable [of 1 2 1] calculate_wq_for_plot_stable [of 1 2 1]
    calculate_lq_stable [of "1/2" 1]
  by (simp add: calculate_rho_Fin erlang_Lq_half_one)

end
